theory Spec2Isabelle
  imports Complex_Main
begin

section \<open>JavaScript values, strings and errors\<close>

text \<open>
  The action is JavaScript. A value that reaches it from the job parameters or from a
  parsed JSON body is one of the JSON shapes or \<open>undefined\<close>; an object is an
  association list in which the first binding of a key is the one read. A number is
  modelled by an exact rational (no rounding, no NaN, no infinities). A string is a list
  of characters, each standing for one code unit below 256.
\<close>

datatype jsvalue =
    JUndefined
  | JNull
  | JBool bool
  | JNumber rat
  | JString string
  | JArray "jsvalue list"
  | JObject "(string \<times> jsvalue) list"

text \<open>
  The three classes of thrown values of the script: \<open>RetryableError\<close> and
  \<open>FatalError\<close> are the classes declared at the top of \<open>script.mjs\<close>; \<open>Error\<close>
  stands for every other exception (a plain \<open>Error\<close> of the helpers, a \<open>TypeError\<close>
  or \<open>SyntaxError\<close> of the runtime). Each carries its message.
\<close>

datatype jserror = RetryableError string | FatalError string | Error string

fun message :: "jserror \<Rightarrow> string" where
  "message (RetryableError m) = m"
| "message (FatalError m) = m"
| "message (Error m) = m"

text \<open>The \<open>retryable\<close> property: set by the two constructors, absent on any other error.\<close>

fun retryable :: "jserror \<Rightarrow> bool option" where
  "retryable (RetryableError m) = Some True"
| "retryable (FatalError m) = Some False"
| "retryable (Error m) = None"

text \<open>JavaScript truthiness, as the tests \<open>!x\<close>, \<open>x || y\<close> and \<open>if (x)\<close> read it.\<close>

fun truthy :: "jsvalue \<Rightarrow> bool" where
  "truthy JUndefined = False"
| "truthy JNull = False"
| "truthy (JBool b) = b"
| "truthy (JNumber n) = (n \<noteq> 0)"
| "truthy (JString s) = (s \<noteq> [])"
| "truthy (JArray xs) = True"
| "truthy (JObject kvs) = True"

fun typeof :: "jsvalue \<Rightarrow> string" where
  "typeof JUndefined = ''undefined''"
| "typeof JNull = ''object''"
| "typeof (JBool b) = ''boolean''"
| "typeof (JNumber n) = ''number''"
| "typeof (JString s) = ''string''"
| "typeof (JArray xs) = ''object''"
| "typeof (JObject kvs) = ''object''"

text \<open>
  Property access \<open>v.k\<close>: a \<open>TypeError\<close> on \<open>undefined\<close> and \<open>null\<close>, the bound
  value on an object that has the key, \<open>undefined\<close> otherwise (none of the keys the
  script reads is a built-in property of a string, a number or an array).
\<close>

definition lookup :: "(string \<times> jsvalue) list \<Rightarrow> string \<Rightarrow> jsvalue" where
  "lookup kvs k = (case map_of kvs k of None \<Rightarrow> JUndefined | Some v \<Rightarrow> v)"

fun getprop :: "jsvalue \<Rightarrow> string \<Rightarrow> jserror + jsvalue" where
  "getprop JUndefined k =
     Inl (Error (''Cannot read properties of undefined (reading '' @ [CHR 0x27] @ k
                   @ [CHR 0x27] @ '')''))"
| "getprop JNull k =
     Inl (Error (''Cannot read properties of null (reading '' @ [CHR 0x27] @ k
                   @ [CHR 0x27] @ '')''))"
| "getprop (JObject kvs) k = Inr (lookup kvs k)"
| "getprop v k = Inr JUndefined"

subsection \<open>String built-ins\<close>

text \<open>
  White space as \<open>String.prototype.trim\<close> and the regular expression class \<open>\s\<close>
  take it, among the code units below 256: tab, line feed, vertical tab, form feed,
  carriage return, space and the no-break space.
\<close>

definition isWhiteSpace :: "char \<Rightarrow> bool" where
  "isWhiteSpace c = (of_char c \<in> {9, 10, 11, 12, 13, 32, 160 :: nat})"

definition trim :: "string \<Rightarrow> string" where
  "trim s = rev (dropWhile isWhiteSpace (rev (dropWhile isWhiteSpace s)))"

definition startsWith :: "string \<Rightarrow> string \<Rightarrow> bool" where
  "startsWith s p = (take (length p) s = p)"

definition endsWith :: "string \<Rightarrow> string \<Rightarrow> bool" where
  "endsWith s p = (length p \<le> length s \<and> drop (length s - length p) s = p)"

definition isDigit :: "char \<Rightarrow> bool" where
  "isDigit c = (48 \<le> (of_char c :: nat) \<and> (of_char c :: nat) \<le> 57)"

text \<open>Lower-casing of one code unit: only the letters A to Z change below 128.\<close>

definition toLowerChar :: "char \<Rightarrow> char" where
  "toLowerChar c =
     (case map_of (zip ''ABCDEFGHIJKLMNOPQRSTUVWXYZ'' ''abcdefghijklmnopqrstuvwxyz'') c of
        None \<Rightarrow> c
      | Some l \<Rightarrow> l)"

definition toLowerCase :: "string \<Rightarrow> string" where
  "toLowerCase s = map toLowerChar s"

text \<open>\<open>s.split(sep)\<close> for a separator of one character: never an empty array.\<close>

fun js_split :: "char \<Rightarrow> string \<Rightarrow> string list" where
  "js_split sep [] = [[]]"
| "js_split sep (c # cs) =
     (if c = sep then [] # js_split sep cs
      else (case js_split sep cs of
              [] \<Rightarrow> [[c]]
            | x # xs \<Rightarrow> (c # x) # xs))"

text \<open>Decimal rendering of a natural number, as a template literal renders a status code.\<close>

function show_nat :: "nat \<Rightarrow> string" where
  "show_nat n =
     (if n < 10 then [''0123456789'' ! n]
      else show_nat (n div 10) @ [''0123456789'' ! (n mod 10)])"
  by pat_completeness auto
termination
  by (relation "measure (\<lambda>n. n)") auto

declare show_nat.simps [simp del]

section \<open>Token-type detector (\<open>determineTokenType\<close>)\<close>

text \<open>
  \<^verbatim>\<open>if (authToken && authToken.split('.').length === 3) return 'KEYPAIR_JWT';
  return 'OAUTH';\<close>
\<close>

definition determineTokenType :: "string \<Rightarrow> string" where
  "determineTokenType authToken =
     (if authToken \<noteq> [] \<and> length (js_split (CHR ''.'') authToken) = 3
      then ''KEYPAIR_JWT'' else ''OAUTH'')"

section \<open>Observable effects\<close>

text \<open>
  What an invocation does to the outside is recorded in a trace, in order: an outbound
  HTTP request (\<open>fetch\<close>), a wait (\<open>setTimeout\<close>) and a warning (\<open>console.warn\<close>).
  The informational \<open>console.log\<close> and \<open>console.error\<close> lines are not recorded.
\<close>

datatype body = JsonBody jsvalue | FormBody "(string \<times> string) list"

record request =
  url :: string
  httpMethod :: string
  headers :: "(string \<times> string) list"
  body :: body

datatype event = Fetch request | Sleep rat | Warn string

type_synonym trace = "event list"

section \<open>Duration parser (\<open>parseDuration\<close>)\<close>

text \<open>
  The match of \<^verbatim>\<open>/^(\d+(?:\.\d+)?)(ms|s|m|h)?$/i\<close> against the whole string: the
  digits, then a fraction when a dot is followed by at least one digit, then the rest,
  which must be empty or, ignoring case, one of the four units. The result holds the two
  groups; the second is \<open>None\<close> when the unit group took no part in the match. No
  other way of matching exists: a shorter run of digits leaves a digit that neither the
  dot, a unit nor the end of the string accepts.
\<close>

definition unitGroup :: "string \<Rightarrow> string \<Rightarrow> (string \<times> string option) option" where
  "unitGroup num r =
     (if r = [] then Some (num, None)
      else if toLowerCase r \<in> {''ms'', ''s'', ''m'', ''h''} then Some (num, Some r)
      else None)"

definition durationMatch :: "string \<Rightarrow> (string \<times> string option) option" where
  "durationMatch s =
     (let ds = takeWhile isDigit s; r1 = dropWhile isDigit s in
      if ds = [] then None
      else
        (case r1 of
           [] \<Rightarrow> unitGroup ds r1
         | c # t \<Rightarrow>
             if c = CHR ''.'' \<and> takeWhile isDigit t \<noteq> []
             then unitGroup (ds @ [c] @ takeWhile isDigit t) (dropWhile isDigit t)
             else unitGroup ds r1))"

text \<open>The value of a run of decimal digits, and \<open>parseFloat\<close> on the first group.\<close>

definition digitsValue :: "string \<Rightarrow> nat" where
  "digitsValue ds = foldl (\<lambda>acc c. 10 * acc + (of_char c - 48)) 0 ds"

definition parseFloat :: "string \<Rightarrow> rat" where
  "parseFloat num =
     (let ip = takeWhile isDigit num; fp = drop (Suc (length ip)) num in
      of_nat (digitsValue ip) + of_nat (digitsValue fp) / 10 ^ length fp)"

text \<open>
  \<open>parseDuration\<close> itself. A falsy argument gives the default; a string goes through
  the match; any other value has no \<open>match\<close> method, and the call throws a
  \<open>TypeError\<close>.
\<close>

definition parseDuration :: "jsvalue \<Rightarrow> trace \<Rightarrow> (jserror + rat) \<times> trace" where
  "parseDuration durationStr tr =
     (if \<not> truthy durationStr then (Inr 100, tr)
      else
        (case durationStr of
           JString s \<Rightarrow>
             (case durationMatch s of
                None \<Rightarrow>
                  (Inr 100,
                   tr @ [Warn (''Invalid duration format: '' @ s @ '', using default 100ms'')])
              | Some (num, grp) \<Rightarrow>
                  (let v = parseFloat num;
                       unit = toLowerCase (case grp of None \<Rightarrow> ''ms'' | Some u \<Rightarrow> u)
                   in (Inr (if unit = ''ms'' then v
                            else if unit = ''s'' then v * 1000
                            else if unit = ''m'' then v * 60 * 1000
                            else if unit = ''h'' then v * 60 * 60 * 1000
                            else v), tr)))
         | _ \<Rightarrow> (Inl (Error ''durationStr.match is not a function''), tr)))"

section \<open>The network, the clock and the platform's conversions\<close>

text \<open>
  A \<open>fetch\<close> either rejects (a network failure) or resolves to a response, of which the
  script reads \<open>ok\<close>, \<open>status\<close>, \<open>statusText\<close>, \<open>text()\<close> and \<open>json()\<close>; the
  last fails when the body is not JSON. A body is read once: the script reads a body a
  second time in one place only, in \<open>getClientCredentialsToken\<close>, where the second
  read throws.
\<close>

record response =
  ok :: bool
  status :: nat
  statusText :: string
  bodyText :: string
  json :: "jserror + jsvalue"

text \<open>
  The world outside the script: what the network answers to a request after the events
  so far, what the clock shows, the two conversions of the runtime that the script
  leaves to it (a template literal on a value that is not a string, and
  \<open>JSON.stringify\<close>), and \<open>resolveJSONPathTemplates\<close>, the function of the
  package \<open>@sgnl-actions/utils\<close> that \<open>invoke\<close> calls on the parameters and the job
  context: its code is not part of the repository, so it is a parameter, which either
  throws or returns the resolved parameters and a list of errors. Every theorem holds
  for every world.
\<close>

record world =
  server :: "trace \<Rightarrow> request \<Rightarrow> jserror + response"
  clock :: "trace \<Rightarrow> nat"
  ToString :: "jsvalue \<Rightarrow> string"
  JSON_stringify :: "jsvalue \<Rightarrow> string"
  resolveJSONPathTemplates ::
    "(string \<times> jsvalue) list \<Rightarrow> jsvalue \<Rightarrow> jserror + (string \<times> jsvalue) list \<times> string list"

text \<open>
  \<open>new Date().toISOString()\<close>: the ISO-8601 text of an instant, given in milliseconds
  since the epoch. The formatting is the runtime's and is not unfolded.
\<close>

datatype isostring = ToISOString nat

definition fetch :: "world \<Rightarrow> request \<Rightarrow> trace \<Rightarrow> (jserror + response) \<times> trace" where
  "fetch w req tr = (server w tr req, tr @ [Fetch req])"

text \<open>A value inside a template literal: a string stands for itself.\<close>

definition template :: "world \<Rightarrow> jsvalue \<Rightarrow> string" where
  "template w v = (case v of JString s \<Rightarrow> s | _ \<Rightarrow> ToString w v)"

text \<open>
  \<open>Buffer.from(s).toString('base64')\<close>: the UTF-8 bytes of the string, three bytes to
  four characters, padded with \<open>=\<close>.
\<close>

definition utf8 :: "string \<Rightarrow> nat list" where
  "utf8 s =
     concat (map (\<lambda>c. let n = (of_char c :: nat)
                       in if n < 128 then [n] else [192 + n div 64, 128 + n mod 64]) s)"

definition b64 :: "nat \<Rightarrow> char" where
  "b64 i = ''ABCDEFGHIJKLMNOPQRSTUVWXYZabcdefghijklmnopqrstuvwxyz0123456789+/'' ! i"

fun b64enc :: "nat list \<Rightarrow> string" where
  "b64enc [] = []"
| "b64enc [a] = [b64 (a div 4), b64 (a mod 4 * 16), CHR ''='', CHR ''='']"
| "b64enc [a, b] =
     [b64 (a div 4), b64 (a mod 4 * 16 + b div 16), b64 (b mod 16 * 4), CHR ''='']"
| "b64enc (a # b # c # r) =
     [b64 (a div 4), b64 (a mod 4 * 16 + b div 16), b64 (b mod 16 * 4 + c div 64),
      b64 (c mod 64)] @ b64enc r"

definition base64 :: "string \<Rightarrow> string" where
  "base64 s = b64enc (utf8 s)"

section \<open>Statement executor (\<open>executeStatement\<close>)\<close>

text \<open>\<^verbatim>\<open>authHeader.replace(/^Bearer\s+/i, '')\<close>: a leading \<open>Bearer\<close>, in any case, and
  the white space after it (at least one character) are removed.\<close>

definition stripBearer :: "string \<Rightarrow> string" where
  "stripBearer authHeader =
     (if toLowerCase (take 6 authHeader) = ''bearer''
         \<and> takeWhile isWhiteSpace (drop 6 authHeader) \<noteq> []
      then dropWhile isWhiteSpace (drop 6 authHeader)
      else authHeader)"

text \<open>
  The request that \<open>executeStatement\<close> passes to \<open>fetch\<close>: the URL, the headers
  (the token-type header is added when \<open>tokenType\<close> is truthy) and the JSON body
  \<open>{statement}\<close>.
\<close>

definition statementRequest :: "string \<Rightarrow> string \<Rightarrow> string \<Rightarrow> request" where
  "statementRequest statement authHeader baseUrl =
     (let token = stripBearer authHeader;
          tokenType = determineTokenType token;
          hs = [(''Authorization'', authHeader),
                (''Content-Type'', ''application/json''),
                (''Accept'', ''*/*'')];
          hs' = (if tokenType \<noteq> []
                 then hs @ [(''X-Snowflake-Authorization-Token-Type'', tokenType)]
                 else hs)
      in \<lparr>url = baseUrl @ ''/api/v2/statements'',
          httpMethod = ''POST'',
          headers = hs',
          body = JsonBody (JObject [(''statement'', JString statement)])\<rparr>)"

definition executeStatement ::
  "world \<Rightarrow> string \<Rightarrow> string \<Rightarrow> string \<Rightarrow> trace \<Rightarrow> (jserror + jsvalue) \<times> trace" where
  "executeStatement w statement authHeader baseUrl tr =
     (case fetch w (statementRequest statement authHeader baseUrl) tr of
        (Inl e, tr') \<Rightarrow> (Inl e, tr')
      | (Inr r, tr') \<Rightarrow>
          if \<not> ok r then
            (let responseText = bodyText r in
             if status r = 429 then
               (Inl (RetryableError ''Snowflake API rate limit exceeded''), tr')
             else if status r = 401 then
               (Inl (FatalError ''Invalid or expired authentication token''), tr')
             else if status r = 403 then
               (Inl (FatalError ''Insufficient permissions to execute statement''), tr')
             else if status r = 422 then
               (Inl (FatalError (''Invalid SQL statement: '' @ responseText)), tr')
             else if status r \<ge> 500 then
               (Inl (RetryableError
                       (''Snowflake API server error: '' @ show_nat (status r))), tr')
             else
               (Inl (FatalError
                       (''Failed to execute statement: '' @ show_nat (status r) @ '' ''
                          @ statusText r @ '' - '' @ responseText)), tr'))
          else (json r, tr'))"

section \<open>Auth resolver (\<open>getAuthorizationHeader\<close>, \<open>getClientCredentialsToken\<close>)\<close>

text \<open>
  The execution context: \<open>environment\<close> and \<open>secrets\<close> map names to strings; either
  may be missing, and the source then reads an empty object; \<open>data\<close> is the job
  context that \<open>invoke\<close> hands to the template resolution. A looked-up entry is a
  string or \<open>undefined\<close>; \<open>present\<close> is the truthiness test the source applies to it
  (\<open>if (secrets.K)\<close>), and \<open>str\<close> is the entry inside a template literal.
\<close>

record exec_context =
  environment :: "(string \<rightharpoonup> string) option"
  secrets :: "(string \<rightharpoonup> string) option"
  data :: jsvalue

definition orEmpty :: "(string \<rightharpoonup> string) option \<Rightarrow> (string \<rightharpoonup> string)" where
  "orEmpty m = (case m of None \<Rightarrow> Map.empty | Some f \<Rightarrow> f)"

fun present :: "string option \<Rightarrow> bool" where
  "present None = False"
| "present (Some s) = (s \<noteq> [])"

fun str :: "string option \<Rightarrow> string" where
  "str None = ''undefined''"
| "str (Some s) = s"

record config =
  tokenUrl :: "string option"
  clientId :: "string option"
  clientSecret :: "string option"
  scope :: "string option"
  audience :: "string option"
  authStyle :: "string option"

definition getClientCredentialsToken ::
  "world \<Rightarrow> config \<Rightarrow> trace \<Rightarrow> (jserror + jsvalue) \<times> trace" where
  "getClientCredentialsToken w cfg tr =
     (if \<not> present (tokenUrl cfg) \<or> \<not> present (clientId cfg) \<or> \<not> present (clientSecret cfg)
      then (Inl (Error ''OAuth2 Client Credentials flow requires tokenUrl, clientId, and clientSecret''), tr)
      else
        (let ps0 = [(''grant_type'', ''client_credentials'')];
             ps1 = (if present (scope cfg) then ps0 @ [(''scope'', str (scope cfg))] else ps0);
             ps2 = (if present (audience cfg) then ps1 @ [(''audience'', str (audience cfg))]
                    else ps1);
             hs = [(''Content-Type'', ''application/x-www-form-urlencoded''),
                   (''Accept'', ''application/json'')];
             ps3 = (if authStyle cfg = Some ''InParams''
                    then ps2 @ [(''client_id'', str (clientId cfg)),
                                (''client_secret'', str (clientSecret cfg))]
                    else ps2);
             hs' = (if authStyle cfg = Some ''InParams'' then hs
                    else hs @ [(''Authorization'',
                                ''Basic '' @ base64 (str (clientId cfg) @ '':''
                                                       @ str (clientSecret cfg)))]);
             req = \<lparr>url = str (tokenUrl cfg), httpMethod = ''POST'', headers = hs',
                    body = FormBody ps3\<rparr>
         in case fetch w req tr of
              (Inl e, tr') \<Rightarrow> (Inl e, tr')
            | (Inr r, tr') \<Rightarrow>
                if \<not> ok r then
                  (case json r of
                     Inr errorData \<Rightarrow>
                       (let errorText = JSON_stringify w errorData
                        in (Inl (Error (''OAuth2 token request failed: ''
                                          @ show_nat (status r) @ '' '' @ statusText r
                                          @ '' - '' @ errorText)), tr'))
                   | Inl e \<Rightarrow>
                       (Inl (Error ''Body is unusable: Body has already been read''), tr'))
                else
                  (case json r of
                     Inl e \<Rightarrow> (Inl e, tr')
                   | Inr data' \<Rightarrow>
                       (case getprop data' ''access_token'' of
                          Inl e \<Rightarrow> (Inl e, tr')
                        | Inr tok \<Rightarrow>
                            if \<not> truthy tok
                            then (Inl (Error ''No access_token in OAuth2 response''), tr')
                            else (Inr tok, tr')))))"

definition getAuthorizationHeader ::
  "world \<Rightarrow> exec_context \<Rightarrow> trace \<Rightarrow> (jserror + string) \<times> trace" where
  "getAuthorizationHeader w ctx tr =
     (let env = orEmpty (environment ctx); sec = orEmpty (secrets ctx) in
      if present (sec ''BEARER_AUTH_TOKEN'') then
        (let token = str (sec ''BEARER_AUTH_TOKEN'')
         in (Inr (if startsWith token ''Bearer '' then token else ''Bearer '' @ token), tr))
      else if present (sec ''BASIC_PASSWORD'') \<and> present (sec ''BASIC_USERNAME'') then
        (let credentials = base64 (str (sec ''BASIC_USERNAME'') @ '':''
                                     @ str (sec ''BASIC_PASSWORD''))
         in (Inr (''Basic '' @ credentials), tr))
      else if present (sec ''OAUTH2_AUTHORIZATION_CODE_ACCESS_TOKEN'') then
        (let token = str (sec ''OAUTH2_AUTHORIZATION_CODE_ACCESS_TOKEN'')
         in (Inr (if startsWith token ''Bearer '' then token else ''Bearer '' @ token), tr))
      else if present (sec ''OAUTH2_CLIENT_CREDENTIALS_CLIENT_SECRET'') then
        (let tokenUrl = env ''OAUTH2_CLIENT_CREDENTIALS_TOKEN_URL'';
             clientId = env ''OAUTH2_CLIENT_CREDENTIALS_CLIENT_ID'';
             clientSecret = sec ''OAUTH2_CLIENT_CREDENTIALS_CLIENT_SECRET''
         in if \<not> present tokenUrl \<or> \<not> present clientId then
              (Inl (Error ''OAuth2 Client Credentials flow requires TOKEN_URL and CLIENT_ID in env''), tr)
            else
              (case getClientCredentialsToken w
                      \<lparr>tokenUrl = tokenUrl, clientId = clientId, clientSecret = clientSecret,
                       scope = env ''OAUTH2_CLIENT_CREDENTIALS_SCOPE'',
                       audience = env ''OAUTH2_CLIENT_CREDENTIALS_AUDIENCE'',
                       authStyle = env ''OAUTH2_CLIENT_CREDENTIALS_AUTH_STYLE''\<rparr> tr of
                 (Inl e, tr') \<Rightarrow> (Inl e, tr')
               | (Inr token, tr') \<Rightarrow> (Inr (''Bearer '' @ template w token), tr')))
      else
        (Inl (Error (''No authentication configured. Provide one of: ''
                       @ ''BEARER_AUTH_TOKEN, BASIC_USERNAME/BASIC_PASSWORD, ''
                       @ ''OAUTH2_AUTHORIZATION_CODE_ACCESS_TOKEN, or OAUTH2_CLIENT_CREDENTIALS_*'')),
         tr))"

section \<open>Base URL (\<open>getBaseUrl\<close>)\<close>

text \<open>
  The job parameters are a JavaScript object; a key that is missing reads as
  \<open>undefined\<close>.
\<close>

type_synonym params = "(string \<times> jsvalue) list"

definition getBaseUrl :: "params \<Rightarrow> exec_context \<Rightarrow> jserror + string" where
  "getBaseUrl params ctx =
     (let env = orEmpty (environment ctx);
          address = (if truthy (lookup params ''address'') then lookup params ''address''
                     else (case env ''ADDRESS'' of None \<Rightarrow> JUndefined | Some a \<Rightarrow> JString a))
      in if \<not> truthy address then
           Inl (Error ''No URL specified. Provide address parameter or ADDRESS environment variable'')
         else
           (case address of
              JString a \<Rightarrow> Inr (if endsWith a ''/'' then butlast a else a)
            | _ \<Rightarrow> Inl (Error ''address.endsWith is not a function'')))"

section \<open>Action handlers (\<open>validateInputs\<close>, \<open>invoke\<close>, \<open>halt\<close>)\<close>

text \<open>
  \<^verbatim>\<open>if (!params.username || typeof params.username !== 'string'
      || params.username.trim() === '') throw new FatalError(...)\<close>
  The third test runs only on a string, the first two having failed.
\<close>

definition validateInputs :: "params \<Rightarrow> jserror + unit" where
  "validateInputs params =
     (let username = lookup params ''username'' in
      if \<not> truthy username \<or> typeof username \<noteq> ''string''
           \<or> (case username of JString s \<Rightarrow> trim s = [] | _ \<Rightarrow> False)
      then Inl (FatalError ''Invalid or missing username parameter'')
      else Inr ())"

record result =
  username :: jsvalue
  sessionsRevoked :: bool
  userDisabled :: jsvalue
  userReEnabled :: jsvalue
  revokedAt :: isostring

text \<open>The body of the \<open>try\<close> block of \<open>invoke\<close>: each step that throws ends the block.\<close>

definition invoke_try ::
  "world \<Rightarrow> params \<Rightarrow> exec_context \<Rightarrow> trace \<Rightarrow> (jserror + result) \<times> trace" where
  "invoke_try w params ctx tr =
     (case validateInputs params of
        Inl e \<Rightarrow> (Inl e, tr)
      | Inr _ \<Rightarrow>
     (let username = lookup params ''username''; delay = lookup params ''delay'' in
      case getAuthorizationHeader w ctx tr of
        (Inl e, tr1) \<Rightarrow> (Inl e, tr1)
      | (Inr authHeader, tr1) \<Rightarrow>
     (case getBaseUrl params ctx of
        Inl e \<Rightarrow> (Inl e, tr1)
      | Inr baseUrl \<Rightarrow>
     (case parseDuration delay tr1 of
        (Inl e, tr2) \<Rightarrow> (Inl e, tr2)
      | (Inr delayMs, tr2) \<Rightarrow>
     (let disableStatement = ''ALTER USER '' @ template w username @ '' SET DISABLED = TRUE'' in
      case executeStatement w disableStatement authHeader baseUrl tr2 of
        (Inl e, tr3) \<Rightarrow> (Inl e, tr3)
      | (Inr disableResult, tr3) \<Rightarrow>
     (let tr4 = tr3 @ [Sleep delayMs];
          enableStatement = ''ALTER USER '' @ template w username @ '' SET DISABLED = FALSE'' in
      case executeStatement w enableStatement authHeader baseUrl tr4 of
        (Inl e, tr5) \<Rightarrow> (Inl e, tr5)
      | (Inr enableResult, tr5) \<Rightarrow>
     (case getprop disableResult ''statementHandle'' of
        Inl e \<Rightarrow> (Inl e, tr5)
      | Inr h1 \<Rightarrow>
     (case getprop enableResult ''statementHandle'' of
        Inl e \<Rightarrow> (Inl e, tr5)
      | Inr h2 \<Rightarrow>
          (Inr \<lparr>username = username,
                sessionsRevoked = True,
                userDisabled = (if truthy h1 then h1 else JBool True),
                userReEnabled = (if truthy h2 then h2 else JBool True),
                revokedAt = ToISOString (clock w tr5)\<rparr>, tr5)))))))))"

text \<open>
  The \<open>catch\<close> block: an instance of \<open>RetryableError\<close> or \<open>FatalError\<close> is thrown
  again as it is, anything else is replaced by a \<open>FatalError\<close>.
\<close>

definition invoke_catch :: "jserror \<Rightarrow> jserror" where
  "invoke_catch e =
     (case e of
        RetryableError m \<Rightarrow> e
      | FatalError m \<Rightarrow> e
      | Error m \<Rightarrow> FatalError (''Unexpected error: '' @ m))"

text \<open>
  The \<open>try\<close> statement of \<open>invoke\<close> (lines 152 to 201 of \<open>script.mjs\<close>), on the
  resolved parameters: the block, and the \<open>catch\<close> block on what it throws.
\<close>

definition invoke ::
  "world \<Rightarrow> params \<Rightarrow> exec_context \<Rightarrow> trace \<Rightarrow> (jserror + result) \<times> trace" where
  "invoke w params ctx tr =
     (case invoke_try w params ctx tr of
        (Inl e, tr') \<Rightarrow> (Inl (invoke_catch e), tr')
      | (Inr res, tr') \<Rightarrow> (Inr res, tr'))"

text \<open>
  What \<open>invoke\<close> runs before the \<open>try\<close> statement, and outside it (lines 144 to 150):
  \<^verbatim>\<open>const jobContext = context.data || {};
  const { result: resolvedParams, errors } = resolveJSONPathTemplates(params, jobContext);
  if (errors.length > 0) console.warn('Template resolution errors:', errors);\<close>
  The context argument is \<open>None\<close> when the caller passes \<open>undefined\<close>: reading
  \<open>context.data\<close> then throws a \<open>TypeError\<close>. The warning is recorded by its first
  argument.
\<close>

definition invokePrelude ::
  "world \<Rightarrow> params \<Rightarrow> exec_context option \<Rightarrow> trace
     \<Rightarrow> (jserror + params \<times> exec_context) \<times> trace" where
  "invokePrelude w params context tr =
     (case context of
        None \<Rightarrow>
          (Inl (Error (''Cannot read properties of undefined (reading '' @ [CHR 0x27]
                         @ ''data'' @ [CHR 0x27] @ '')'')), tr)
      | Some ctx \<Rightarrow>
          (let jobContext = (if truthy (data ctx) then data ctx else JObject []) in
           case resolveJSONPathTemplates w params jobContext of
             Inl e \<Rightarrow> (Inl e, tr)
           | Inr (resolvedParams, errors) \<Rightarrow>
               (Inr (resolvedParams, ctx),
                if length errors > 0 then tr @ [Warn ''Template resolution errors:'']
                else tr)))"

text \<open>
  The handler \<open>invoke\<close> as it is exported (lines 141 to 202): the lines before the
  \<open>try\<close> statement, whose exceptions nothing catches, then the \<open>try\<close> statement on
  the resolved parameters.
\<close>

definition invokeHandler ::
  "world \<Rightarrow> params \<Rightarrow> exec_context option \<Rightarrow> trace \<Rightarrow> (jserror + result) \<times> trace" where
  "invokeHandler w params context tr =
     (case invokePrelude w params context tr of
        (Inl e, tr0) \<Rightarrow> (Inl e, tr0)
      | (Inr (resolvedParams, ctx), tr0) \<Rightarrow> invoke w resolvedParams ctx tr0)"

text \<open>\<^verbatim>\<open>halt\<close>: \<^verbatim>\<open>{ username: username || 'unknown', reason: reason || 'unknown',
  haltedAt: new Date().toISOString(), cleanupCompleted: true }\<close>\<close>

record halt_result =
  username :: jsvalue
  reason :: jsvalue
  haltedAt :: isostring
  cleanupCompleted :: bool

definition halt :: "world \<Rightarrow> params \<Rightarrow> trace \<Rightarrow> halt_result" where
  "halt w params tr =
     (let reason = lookup params ''reason''; username = lookup params ''username'' in
      \<lparr>username = (if truthy username then username else JString ''unknown''),
       reason = (if truthy reason then reason else JString ''unknown''),
       haltedAt = ToISOString (clock w tr),
       cleanupCompleted = True\<rparr>)"

section \<open>The specification's notions\<close>

text \<open>
  The duration syntax in the specification's words: a number \<open>\d+(\.\d+)?\<close> followed
  by an optional unit among \<open>ms\<close>, \<open>s\<close>, \<open>m\<close>, \<open>h\<close>, in any case.
\<close>

definition durationSyntax :: "string \<Rightarrow> bool" where
  "durationSyntax s =
     (\<exists>ds fs u. s = ds @ fs @ u
        \<and> ds \<noteq> [] \<and> list_all isDigit ds
        \<and> (fs = [] \<or> (\<exists>f. fs = CHR ''.'' # f \<and> f \<noteq> [] \<and> list_all isDigit f))
        \<and> toLowerCase u \<in> {[], ''ms'', ''s'', ''m'', ''h''})"

text \<open>Joining segments with a separator, the inverse of \<open>split\<close>.\<close>

fun js_join :: "char \<Rightarrow> string list \<Rightarrow> string" where
  "js_join sep [] = []"
| "js_join sep [x] = x"
| "js_join sep (x # y # r) = x @ sep # js_join sep (y # r)"

text \<open>
  The auth resolver in the specification's words: four named methods in a fixed order,
  each with the credentials that select it and the header it yields; the first method
  whose credentials are present decides.
\<close>

datatype auth_method = BearerToken | BasicAuth | AuthorizationCode | ClientCredentials

definition methodOrder :: "auth_method list" where
  "methodOrder = [BearerToken, BasicAuth, AuthorizationCode, ClientCredentials]"

fun credentialsPresent :: "exec_context \<Rightarrow> auth_method \<Rightarrow> bool" where
  "credentialsPresent ctx BearerToken = present (orEmpty (secrets ctx) ''BEARER_AUTH_TOKEN'')"
| "credentialsPresent ctx BasicAuth =
     (present (orEmpty (secrets ctx) ''BASIC_USERNAME'')
      \<and> present (orEmpty (secrets ctx) ''BASIC_PASSWORD''))"
| "credentialsPresent ctx AuthorizationCode =
     present (orEmpty (secrets ctx) ''OAUTH2_AUTHORIZATION_CODE_ACCESS_TOKEN'')"
| "credentialsPresent ctx ClientCredentials =
     present (orEmpty (secrets ctx) ''OAUTH2_CLIENT_CREDENTIALS_CLIENT_SECRET'')"

definition bearerHeader :: "string \<Rightarrow> string" where
  "bearerHeader token = (if startsWith token ''Bearer '' then token else ''Bearer '' @ token)"

fun methodHeader ::
  "world \<Rightarrow> exec_context \<Rightarrow> auth_method \<Rightarrow> trace \<Rightarrow> (jserror + string) \<times> trace" where
  "methodHeader w ctx BearerToken tr =
     (Inr (bearerHeader (str (orEmpty (secrets ctx) ''BEARER_AUTH_TOKEN''))), tr)"
| "methodHeader w ctx BasicAuth tr =
     (Inr (''Basic '' @ base64 (str (orEmpty (secrets ctx) ''BASIC_USERNAME'') @ '':''
                                 @ str (orEmpty (secrets ctx) ''BASIC_PASSWORD''))), tr)"
| "methodHeader w ctx AuthorizationCode tr =
     (Inr (bearerHeader (str (orEmpty (secrets ctx) ''OAUTH2_AUTHORIZATION_CODE_ACCESS_TOKEN''))), tr)"
| "methodHeader w ctx ClientCredentials tr =
     (let env = orEmpty (environment ctx) in
      if \<not> present (env ''OAUTH2_CLIENT_CREDENTIALS_TOKEN_URL'')
           \<or> \<not> present (env ''OAUTH2_CLIENT_CREDENTIALS_CLIENT_ID'')
      then (Inl (Error ''OAuth2 Client Credentials flow requires TOKEN_URL and CLIENT_ID in env''), tr)
      else
        (case getClientCredentialsToken w
                \<lparr>tokenUrl = env ''OAUTH2_CLIENT_CREDENTIALS_TOKEN_URL'',
                 clientId = env ''OAUTH2_CLIENT_CREDENTIALS_CLIENT_ID'',
                 clientSecret = orEmpty (secrets ctx) ''OAUTH2_CLIENT_CREDENTIALS_CLIENT_SECRET'',
                 scope = env ''OAUTH2_CLIENT_CREDENTIALS_SCOPE'',
                 audience = env ''OAUTH2_CLIENT_CREDENTIALS_AUDIENCE'',
                 authStyle = env ''OAUTH2_CLIENT_CREDENTIALS_AUTH_STYLE''\<rparr> tr of
           (Inl e, tr') \<Rightarrow> (Inl e, tr')
         | (Inr token, tr') \<Rightarrow> (Inr (''Bearer '' @ template w token), tr')))"

definition resolveByPriority ::
  "world \<Rightarrow> exec_context \<Rightarrow> trace \<Rightarrow> (jserror + string) \<times> trace" where
  "resolveByPriority w ctx tr =
     (case find (credentialsPresent ctx) methodOrder of
        None \<Rightarrow>
          (Inl (Error (''No authentication configured. Provide one of: ''
                         @ ''BEARER_AUTH_TOKEN, BASIC_USERNAME/BASIC_PASSWORD, ''
                         @ ''OAUTH2_AUTHORIZATION_CODE_ACCESS_TOKEN, or OAUTH2_CLIENT_CREDENTIALS_*'')),
           tr)
      | Some m \<Rightarrow> methodHeader w ctx m tr)"

section \<open>Concrete worlds and contexts\<close>

text \<open>
  A server that answers every request with the given status, reason and body text, and
  one that answers with status 200 and a statement handle: \<open>h1\<close> to the statement that
  disables alice, \<open>h2\<close> to any other. In these worlds the template resolution returns
  the parameters as they are, with no error; \<open>throwingResolver\<close> is a world in which it
  throws.
\<close>

definition plainResponse :: "nat \<Rightarrow> string \<Rightarrow> string \<Rightarrow> response" where
  "plainResponse st phrase txt =
     \<lparr>ok = (200 \<le> st \<and> st \<le> 299), status = st, statusText = phrase, bodyText = txt,
      json = Inl (Error ''Unexpected token'')\<rparr>"

definition handleResponse :: "string \<Rightarrow> response" where
  "handleResponse h =
     \<lparr>ok = True, status = 200, statusText = ''OK'', bodyText = [],
      json = Inr (JObject [(''statementHandle'', JString h)])\<rparr>"

definition worldOf :: "(trace \<Rightarrow> request \<Rightarrow> jserror + response) \<Rightarrow> world" where
  "worldOf srv =
     \<lparr>server = srv, clock = (\<lambda>tr. 1762164000000 + length tr),
      ToString = (\<lambda>v. ''[object Object]''), JSON_stringify = (\<lambda>v. ''{}''),
      resolveJSONPathTemplates = (\<lambda>ps job. Inr (ps, []))\<rparr>"


definition failingWorld :: "nat \<Rightarrow> string \<Rightarrow> string \<Rightarrow> world" where
  "failingWorld st phrase txt = worldOf (\<lambda>tr req. Inr (plainResponse st phrase txt))"

definition handleWorld :: world where
  "handleWorld =
     worldOf (\<lambda>tr req.
       Inr (handleResponse
              (if body req = JsonBody (JObject [(''statement'',
                                JString ''ALTER USER alice SET DISABLED = TRUE'')])
               then ''h1'' else ''h2'')))"

definition bearerContext :: exec_context where
  "bearerContext =
     \<lparr>environment = Some [''ADDRESS'' \<mapsto> ''https://acme.snowflakecomputing.com''],
      secrets = Some [''BEARER_AUTH_TOKEN'' \<mapsto> ''tok-123''],
      data = JUndefined\<rparr>"

definition bearerAndBasicContext :: exec_context where
  "bearerAndBasicContext =
     \<lparr>environment = Some [''ADDRESS'' \<mapsto> ''https://acme.snowflakecomputing.com''],
      secrets = Some [''BEARER_AUTH_TOKEN'' \<mapsto> ''tok-123'',
                      ''BASIC_USERNAME'' \<mapsto> ''user'',
                      ''BASIC_PASSWORD'' \<mapsto> ''pass''],
      data = JUndefined\<rparr>"

definition emptyContext :: exec_context where
  "emptyContext = \<lparr>environment = None, secrets = None, data = JUndefined\<rparr>"

section \<open>Properties of the string built-ins\<close>

lemma js_split_nonempty: "js_split sep s \<noteq> []"
  by (induction s) (auto split: list.splits)

lemma length_js_split:
  "length (js_split sep s) = Suc (length (filter (\<lambda>c. c = sep) s))"
  by (induction s) (auto split: list.splits simp: js_split_nonempty)

lemma js_join_Cons_split:
  "js_split sep s = x # xs \<Longrightarrow> c \<noteq> sep \<Longrightarrow>
     js_join sep ((c # x) # xs) = c # js_join sep (x # xs)"
  by (cases xs) auto

lemma js_join_split: "js_join sep (js_split sep s) = s"
proof (induction s)
  case Nil
  then show ?case by simp
next
  case (Cons c cs)
  obtain x xs where sp: "js_split sep cs = x # xs"
    using js_split_nonempty [of sep cs] by (cases "js_split sep cs") auto
  show ?case
  proof (cases "c = sep")
    case True
    then show ?thesis using Cons sp by simp
  next
    case False
    then show ?thesis using Cons sp js_join_Cons_split [OF sp False] by simp
  qed
qed

lemma js_split_segments: "x \<in> set (js_split sep s) \<Longrightarrow> sep \<notin> set x"
  by (induction s arbitrary: x) (auto split: list.splits if_splits)

section \<open>Token-type detection\<close>

text \<open>
  Claim C7. \<open>determineTokenType\<close> is a function of the token alone. It returns
  \<open>KEYPAIR_JWT\<close> exactly for the strings that \<open>split('.')\<close> cuts into three
  segments, which are the strings with exactly two dots, and \<open>OAUTH\<close> for every
  other string; the segments, joined by dots again, are the token.
\<close>

theorem determineTokenType_three_segments:
  "determineTokenType t =
     (if length (js_split (CHR ''.'') t) = 3 then ''KEYPAIR_JWT'' else ''OAUTH'')
   \<and> (length (js_split (CHR ''.'') t) = 3) = (length (filter (\<lambda>c. c = CHR ''.'') t) = 2)
   \<and> js_join (CHR ''.'') (js_split (CHR ''.'') t) = t"
  by (cases t)
    (simp_all add: determineTokenType_def length_js_split js_join_split del: js_split.simps)

section \<open>Properties of values and objects\<close>

lemma lookup_Nil [simp]: "lookup [] k = JUndefined"
  by (simp add: lookup_def)

lemma lookup_Cons [simp]:
  "lookup ((k, v) # kvs) k' = (if k' = k then v else lookup kvs k')"
  by (simp add: lookup_def)

lemma typeof_string: "(typeof v = ''string'') = (\<exists>s. v = JString s)"
  by (cases v) auto

section \<open>The statement executor\<close>

lemma determineTokenType_values:
  "determineTokenType t = ''KEYPAIR_JWT'' \<or> determineTokenType t = ''OAUTH''"
  by (simp add: determineTokenType_def)

lemma statementRequest_headers:
  "headers (statementRequest stmt h b) =
     [(''Authorization'', h), (''Content-Type'', ''application/json''), (''Accept'', ''*/*''),
      (''X-Snowflake-Authorization-Token-Type'', determineTokenType (stripBearer h))]"
  using determineTokenType_values [of "stripBearer h"]
  by (auto simp: statementRequest_def Let_def)

lemma executeStatement_trace:
  "snd (executeStatement w stmt h b tr) = tr @ [Fetch (statementRequest stmt h b)]"
  by (simp add: executeStatement_def fetch_def Let_def split: sum.splits)

text \<open>
  Claim C10. The token type is never empty (it is \<open>OAUTH\<close> even for the empty token),
  so the guard \<open>if (tokenType)\<close> always holds: every call of \<open>executeStatement\<close> sends
  exactly one request, and that request carries the header
  \<open>X-Snowflake-Authorization-Token-Type\<close>, with the value \<open>KEYPAIR_JWT\<close> or \<open>OAUTH\<close>.
\<close>

theorem token_type_header_always_sent:
  "determineTokenType t \<noteq> []
   \<and> determineTokenType [] = ''OAUTH''
   \<and> snd (executeStatement w stmt h b tr) = tr @ [Fetch (statementRequest stmt h b)]
   \<and> map_of (headers (statementRequest stmt h b)) ''X-Snowflake-Authorization-Token-Type''
        = Some (determineTokenType (stripBearer h))
   \<and> determineTokenType (stripBearer h) \<in> {''KEYPAIR_JWT'', ''OAUTH''}"
  using determineTokenType_values [of t] determineTokenType_values [of "stripBearer h"]
  by (auto simp: executeStatement_trace statementRequest_headers determineTokenType_def)

text \<open>
  Claim C1. When the request is answered by an HTTP response whose status is outside
  200 to 299 (so that \<open>ok\<close> is false), \<open>executeStatement\<close> throws, and the error is
  the one of the status table: 429 a retryable rate-limit error; 401, 403 and 422 fatal
  errors, the last with the response body in its message; 500 and above a retryable
  server error; any other status a fatal error whose message holds the status, the
  reason phrase and the body. The error is retryable exactly for 429 and for 500 and above.
\<close>

theorem executeStatement_status_table:
  assumes answer: "server w tr (statementRequest stmt h b) = Inr r"
    and http: "ok r = (200 \<le> status r \<and> status r \<le> 299)"
    and non2xx: "\<not> (200 \<le> status r \<and> status r \<le> 299)"
  shows "\<exists>e. fst (executeStatement w stmt h b tr) = Inl e
     \<and> (status r = 429 \<longrightarrow> e = RetryableError ''Snowflake API rate limit exceeded'')
     \<and> (status r = 401 \<longrightarrow> e = FatalError ''Invalid or expired authentication token'')
     \<and> (status r = 403 \<longrightarrow> e = FatalError ''Insufficient permissions to execute statement'')
     \<and> (status r = 422 \<longrightarrow> e = FatalError (''Invalid SQL statement: '' @ bodyText r))
     \<and> (status r \<ge> 500 \<longrightarrow>
          e = RetryableError (''Snowflake API server error: '' @ show_nat (status r)))
     \<and> (status r < 500 \<and> status r \<notin> {429, 401, 403, 422} \<longrightarrow>
          e = FatalError (''Failed to execute statement: '' @ show_nat (status r) @ '' ''
                            @ statusText r @ '' - '' @ bodyText r))
     \<and> retryable e = Some (status r = 429 \<or> status r \<ge> 500)"
  using assms by (auto simp: executeStatement_def fetch_def Let_def)

theorem executeStatement_status_table_witness:
  "fst (executeStatement (failingWorld 503 ''Service Unavailable'' ''busy'')
          ''ALTER USER alice SET DISABLED = TRUE'' ''Bearer tok-123'' ''https://acme'' [])
     = Inl (RetryableError ''Snowflake API server error: 503'')
   \<and> fst (executeStatement (failingWorld 404 ''Not Found'' ''no such page'')
          ''ALTER USER alice SET DISABLED = TRUE'' ''Bearer tok-123'' ''https://acme'' [])
     = Inl (FatalError ''Failed to execute statement: 404 Not Found - no such page'')"
proof -
  let ?s = "''ALTER USER alice SET DISABLED = TRUE''"
  let ?w = "failingWorld 503 ''Service Unavailable'' ''busy''"
  let ?r = "plainResponse 503 ''Service Unavailable'' ''busy''"
  let ?w' = "failingWorld 404 ''Not Found'' ''no such page''"
  let ?r' = "plainResponse 404 ''Not Found'' ''no such page''"
  have a: "server ?w [] (statementRequest ?s ''Bearer tok-123'' ''https://acme'') = Inr ?r"
    by (simp add: failingWorld_def worldOf_def)
  have b: "ok ?r = (200 \<le> status ?r \<and> status ?r \<le> 299)"
    by (simp add: plainResponse_def)
  have c: "\<not> (200 \<le> status ?r \<and> status ?r \<le> 299)"
    by (simp add: plainResponse_def)
  have a': "server ?w' [] (statementRequest ?s ''Bearer tok-123'' ''https://acme'') = Inr ?r'"
    by (simp add: failingWorld_def worldOf_def)
  have b': "ok ?r' = (200 \<le> status ?r' \<and> status ?r' \<le> 299)"
    by (simp add: plainResponse_def)
  have c': "\<not> (200 \<le> status ?r' \<and> status ?r' \<le> 299)"
    by (simp add: plainResponse_def)
  have s503: "show_nat 503 = ''503''" by (simp add: show_nat.simps)
  have s404: "show_nat 404 = ''404''" by (simp add: show_nat.simps)
  from executeStatement_status_table [OF a b c] executeStatement_status_table [OF a' b' c']
  show ?thesis by (auto simp: plainResponse_def s503 s404)
qed

section \<open>The \<open>invoke\<close> handler\<close>

lemma validateInputs_rejects:
  assumes "map_of params ''username'' = None
     \<or> (\<exists>v. map_of params ''username'' = Some v \<and> (\<forall>s. v \<noteq> JString s))
     \<or> (\<exists>s. map_of params ''username'' = Some (JString s) \<and> trim s = [])"
  shows "validateInputs params = Inl (FatalError ''Invalid or missing username parameter'')"
  using assms by (auto simp: validateInputs_def lookup_def Let_def typeof_string)

lemma validateInputs_accepts:
  "(validateInputs params = Inr ()) =
     (\<exists>s. map_of params ''username'' = Some (JString s) \<and> trim s \<noteq> [])"
  by (auto simp: validateInputs_def lookup_def Let_def typeof_string trim_def
      split: option.splits)

text \<open>
  Claim C3. When the \<open>username\<close> parameter is missing, is not a string, or is a string
  that is blank after trimming, \<open>invoke\<close> throws the fatal error with the fixed message
  (its \<open>retryable\<close> flag is false), and the trace is the one it started with: no
  request, to the statements endpoint or to a token endpoint, has been sent.
\<close>

theorem invoke_rejects_bad_username:
  assumes "map_of params ''username'' = None
     \<or> (\<exists>v. map_of params ''username'' = Some v \<and> (\<forall>s. v \<noteq> JString s))
     \<or> (\<exists>s. map_of params ''username'' = Some (JString s) \<and> trim s = [])"
  shows "invoke w params ctx tr = (Inl (FatalError ''Invalid or missing username parameter''), tr)
     \<and> retryable (FatalError ''Invalid or missing username parameter'') = Some False
     \<and> [req. Fetch req \<leftarrow> snd (invoke w params ctx tr)] = [req. Fetch req \<leftarrow> tr]"
  using validateInputs_rejects [OF assms]
  by (simp add: invoke_def invoke_try_def invoke_catch_def)

theorem invoke_rejects_bad_username_witness:
  "invoke handleWorld [(''delay'', JString ''1s'')] bearerContext []
     = (Inl (FatalError ''Invalid or missing username parameter''), [])
   \<and> invoke handleWorld [(''username'', JNumber 7)] bearerContext []
     = (Inl (FatalError ''Invalid or missing username parameter''), [])
   \<and> invoke handleWorld [(''username'', JString ''   '')] bearerContext []
     = (Inl (FatalError ''Invalid or missing username parameter''), [])"
proof -
  have a: "map_of [(''delay'', JString ''1s'')] ''username'' = None
     \<or> (\<exists>v. map_of [(''delay'', JString ''1s'')] ''username'' = Some v
            \<and> (\<forall>s. v \<noteq> JString s))
     \<or> (\<exists>s. map_of [(''delay'', JString ''1s'')] ''username'' = Some (JString s)
            \<and> trim s = [])"
    by simp
  have b: "map_of [(''username'', JNumber 7)] ''username'' = None
     \<or> (\<exists>v. map_of [(''username'', JNumber 7)] ''username'' = Some v
            \<and> (\<forall>s. v \<noteq> JString s))
     \<or> (\<exists>s. map_of [(''username'', JNumber 7)] ''username'' = Some (JString s)
            \<and> trim s = [])"
    by simp
  have c: "map_of [(''username'', JString ''   '')] ''username'' = None
     \<or> (\<exists>v. map_of [(''username'', JString ''   '')] ''username'' = Some v
            \<and> (\<forall>s. v \<noteq> JString s))
     \<or> (\<exists>s. map_of [(''username'', JString ''   '')] ''username'' = Some (JString s)
            \<and> trim s = [])"
    by (simp add: trim_def isWhiteSpace_def)
  from invoke_rejects_bad_username [OF a, of handleWorld bearerContext "[]"]
    invoke_rejects_bad_username [OF b, of handleWorld bearerContext "[]"]
    invoke_rejects_bad_username [OF c, of handleWorld bearerContext "[]"]
  show ?thesis by simp
qed

lemma invoke_catch_classified: "retryable (invoke_catch e) \<noteq> None"
  by (cases e) (simp_all add: invoke_catch_def)

lemma invoke_catch_eq:
  "invoke_catch e =
     (if retryable e \<noteq> None then e else FatalError (''Unexpected error: '' @ message e))"
  by (cases e) (simp_all add: invoke_catch_def)

lemma bearerContext_header:
  "getAuthorizationHeader w bearerContext tr = (Inr ''Bearer tok-123'', tr)"
  by (simp add: getAuthorizationHeader_def bearerContext_def orEmpty_def startsWith_def)

lemma bearerContext_baseUrl:
  "lookup params ''address'' = JUndefined \<Longrightarrow>
     getBaseUrl params bearerContext = Inr ''https://acme.snowflakecomputing.com''"
  by (simp add: getBaseUrl_def bearerContext_def orEmpty_def endsWith_def)


lemma parseDuration_undefined: "parseDuration JUndefined tr = (Inr 100, tr)"
  by (simp add: parseDuration_def)

text \<open>
  The \<open>try\<close> statement alone: what leaves it is a result, or an error with a boolean
  \<open>retryable\<close> flag.
\<close>

lemma invoke_try_statement:
  "(invoke w params ctx tr = (Inl e, tr') \<longrightarrow> (\<exists>flag. retryable e = Some flag))
   \<and> (invoke_try w params ctx tr = (Inl e0, tr') \<longrightarrow>
        invoke w params ctx tr =
          (Inl (if retryable e0 \<noteq> None then e0
                else FatalError (''Unexpected error: '' @ message e0)), tr'))
   \<and> (invoke_try w params ctx tr = (Inr res, tr') \<longrightarrow>
        invoke w params ctx tr = (Inr res, tr'))"
  using invoke_catch_classified
  by (auto simp: invoke_def invoke_catch_eq split: prod.splits sum.splits)

text \<open>
  The handler with a context and a template resolution that returns: it is the
  \<open>try\<close> statement on the resolved parameters, after the warning when the resolution
  reported errors.
\<close>

lemma invokeHandler_resolved:
  assumes "resolveJSONPathTemplates w params
             (if truthy (data ctx) then data ctx else JObject []) = Inr (resolved, errs)"
  shows "invokeHandler w params (Some ctx) tr =
           invoke w resolved ctx
             (if length errs > 0 then tr @ [Warn ''Template resolution errors:''] else tr)"
  using assms by (simp add: invokeHandler_def invokePrelude_def Let_def)








text \<open>
  Claim C2. For the username \<open>alice\<close>, once the auth header, the base URL and the
  delay are resolved, if the request that disables the user is answered with status 200
  and the JSON body \<open>{statementHandle: "h1"}\<close>, and the request that enables the user
  again, sent after the wait, with status 200 and \<open>{statementHandle: "h2"}\<close>, then
  \<open>invoke\<close> returns the result with username \<open>alice\<close>, \<open>sessionsRevoked\<close> true, the
  two handles, and the ISO-8601 text of the clock read at the end.
\<close>

theorem invoke_alice_end_to_end:
  assumes user: "lookup params ''username'' = JString ''alice''"
    and auth: "getAuthorizationHeader w ctx tr = (Inr authHeader, tr1)"
    and base: "getBaseUrl params ctx = Inr baseUrl"
    and delay: "parseDuration (lookup params ''delay'') tr1 = (Inr delayMs, tr2)"
    and first: "server w tr2
          (statementRequest ''ALTER USER alice SET DISABLED = TRUE'' authHeader baseUrl) = Inr r1"
    and r1: "ok r1" "status r1 = 200"
          "json r1 = Inr (JObject [(''statementHandle'', JString ''h1'')])"
    and second: "server w
          (tr2 @ [Fetch (statementRequest ''ALTER USER alice SET DISABLED = TRUE''
                           authHeader baseUrl),
                  Sleep delayMs])
          (statementRequest ''ALTER USER alice SET DISABLED = FALSE'' authHeader baseUrl) = Inr r2"
    and r2: "ok r2" "status r2 = 200"
          "json r2 = Inr (JObject [(''statementHandle'', JString ''h2'')])"
    and final: "tr' = tr2 @
          [Fetch (statementRequest ''ALTER USER alice SET DISABLED = TRUE'' authHeader baseUrl),
           Sleep delayMs,
           Fetch (statementRequest ''ALTER USER alice SET DISABLED = FALSE'' authHeader baseUrl)]"
  shows "invoke w params ctx tr =
     (Inr \<lparr>result.username = JString ''alice'', sessionsRevoked = True,
           userDisabled = JString ''h1'', userReEnabled = JString ''h2'',
           revokedAt = ToISOString (clock w tr')\<rparr>, tr')"
proof -
  let ?req1 = "statementRequest ''ALTER USER alice SET DISABLED = TRUE'' authHeader baseUrl"
  let ?req2 = "statementRequest ''ALTER USER alice SET DISABLED = FALSE'' authHeader baseUrl"
  have val: "validateInputs params = Inr ()"
    using user by (simp add: validateInputs_def trim_def isWhiteSpace_def)
  have e1: "executeStatement w ''ALTER USER alice SET DISABLED = TRUE'' authHeader baseUrl tr2
      = (Inr (JObject [(''statementHandle'', JString ''h1'')]), tr2 @ [Fetch ?req1])"
    using first r1 by (simp add: executeStatement_def fetch_def)
  have e2: "executeStatement w ''ALTER USER alice SET DISABLED = FALSE'' authHeader baseUrl
        (tr2 @ [Fetch ?req1, Sleep delayMs])
      = (Inr (JObject [(''statementHandle'', JString ''h2'')]),
         tr2 @ [Fetch ?req1, Sleep delayMs, Fetch ?req2])"
    using second r2 by (simp add: executeStatement_def fetch_def)
  show ?thesis
    by (simp add: invoke_def invoke_try_def val Let_def user auth base delay template_def e1 e2
        final)
qed

theorem invoke_alice_end_to_end_witness:
  "invoke handleWorld [(''username'', JString ''alice'')] bearerContext [] =
     (Inr \<lparr>result.username = JString ''alice'', sessionsRevoked = True,
           userDisabled = JString ''h1'', userReEnabled = JString ''h2'',
           revokedAt = ToISOString 1762164000003\<rparr>,
      [Fetch (statementRequest ''ALTER USER alice SET DISABLED = TRUE'' ''Bearer tok-123''
                ''https://acme.snowflakecomputing.com''),
       Sleep 100,
       Fetch (statementRequest ''ALTER USER alice SET DISABLED = FALSE'' ''Bearer tok-123''
                ''https://acme.snowflakecomputing.com'')])"
proof -
  let ?p = "[(''username'', JString ''alice'')]"
  let ?h = "''Bearer tok-123''"
  let ?b = "''https://acme.snowflakecomputing.com''"
  let ?req1 = "statementRequest ''ALTER USER alice SET DISABLED = TRUE'' ?h ?b"
  let ?req2 = "statementRequest ''ALTER USER alice SET DISABLED = FALSE'' ?h ?b"
  have user: "lookup ?p ''username'' = JString ''alice''" by simp
  have base: "getBaseUrl ?p bearerContext = Inr ?b"
    by (simp add: bearerContext_baseUrl)
  have delay: "parseDuration (lookup ?p ''delay'') [] = (Inr 100, [])"
    by (simp add: parseDuration_undefined)
  have first: "server handleWorld [] ?req1 = Inr (handleResponse ''h1'')"
    by (simp add: handleWorld_def worldOf_def statementRequest_def Let_def)
  have second: "server handleWorld ([] @ [Fetch ?req1, Sleep 100]) ?req2
                  = Inr (handleResponse ''h2'')"
    by (simp add: handleWorld_def worldOf_def statementRequest_def Let_def)
  have r1: "ok (handleResponse ''h1'')" "status (handleResponse ''h1'') = 200"
    "json (handleResponse ''h1'') = Inr (JObject [(''statementHandle'', JString ''h1'')])"
    by (simp_all add: handleResponse_def)
  have r2: "ok (handleResponse ''h2'')" "status (handleResponse ''h2'') = 200"
    "json (handleResponse ''h2'') = Inr (JObject [(''statementHandle'', JString ''h2'')])"
    by (simp_all add: handleResponse_def)
  have c: "clock handleWorld [Fetch ?req1, Sleep 100, Fetch ?req2] = 1762164000003"
    by (simp add: handleWorld_def worldOf_def)
  from invoke_alice_end_to_end [OF user bearerContext_header base delay first r1 second r2 refl]
  show ?thesis by (simp add: c)
qed

section \<open>The \<open>halt\<close> handler\<close>

text \<open>
  Claim C9. For every parameter object \<open>halt\<close> returns a result with the four fields
  \<open>username\<close>, \<open>reason\<close>, \<open>haltedAt\<close> (the ISO-8601 text of the clock) and
  \<open>cleanupCompleted\<close>, which is true. The username is the given one, and the string
  \<open>unknown\<close> when none is given (\<open>username || 'unknown'\<close>: a missing, empty or
  otherwise falsy value counts as not given); the reason is treated alike. With reason
  \<open>timeout\<close> and username \<open>bob\<close> the result has both; with no username it has
  \<open>unknown\<close>.
\<close>

theorem halt_result_shape:
  "cleanupCompleted (halt w params tr) = True
   \<and> haltedAt (halt w params tr) = ToISOString (clock w tr)
   \<and> halt_result.username (halt w params tr)
        = (if truthy (lookup params ''username'') then lookup params ''username''
           else JString ''unknown'')
   \<and> reason (halt w params tr)
        = (if truthy (lookup params ''reason'') then lookup params ''reason''
           else JString ''unknown'')
   \<and> (map_of params ''username'' = None \<longrightarrow>
        halt_result.username (halt w params tr) = JString ''unknown'')
   \<and> (\<forall>u. map_of params ''username'' = Some (JString u) \<and> u \<noteq> [] \<longrightarrow>
        halt_result.username (halt w params tr) = JString u)
   \<and> halt w [(''reason'', JString ''timeout''), (''username'', JString ''bob'')] tr
        = \<lparr>username = JString ''bob'', reason = JString ''timeout'',
           haltedAt = ToISOString (clock w tr), cleanupCompleted = True\<rparr>
   \<and> halt_result.username (halt w [(''reason'', JString ''x'')] tr) = JString ''unknown''"
  by (simp add: halt_def lookup_def Let_def)

theorem halt_result_shape_witness:
  "halt_result.username (halt handleWorld [(''reason'', JString ''x'')] []) = JString ''unknown''
   \<and> halt_result.username
        (halt handleWorld [(''username'', JString ''bob''), (''reason'', JString ''timeout'')] [])
       = JString ''bob''"
  using halt_result_shape [of handleWorld "[(''reason'', JString ''x'')]" "[]"]
    halt_result_shape [of handleWorld
      "[(''username'', JString ''bob''), (''reason'', JString ''timeout'')]" "[]"]
  by simp

section \<open>The duration parser\<close>

lemma list_all_takeWhile: "list_all P (takeWhile P xs)"
  by (induction xs) auto

lemma upper_letters:
  "l \<in> set ''ABCDEFGHIJKLMNOPQRSTUVWXYZ'' \<Longrightarrow> 65 \<le> (of_char l :: nat)"
  by auto

lemma toLowerChar_digit: "isDigit c \<Longrightarrow> toLowerChar c = c"
proof -
  assume d: "isDigit c"
  have "c \<notin> set ''ABCDEFGHIJKLMNOPQRSTUVWXYZ''"
    using upper_letters [of c] d by (auto simp: isDigit_def simp del: set_simps)
  then have "map_of (zip ''ABCDEFGHIJKLMNOPQRSTUVWXYZ'' ''abcdefghijklmnopqrstuvwxyz'') c = None"
    by (subst map_of_zip_is_None) simp_all
  then show ?thesis by (simp only: toLowerChar_def option.case)
qed

lemma toLowerChar_dot: "toLowerChar (CHR ''.'') = CHR ''.''"
  by (simp add: toLowerChar_def)

lemma toLowerCase_Nil_iff: "(toLowerCase r = []) = (r = [])"
  by (simp add: toLowerCase_def)

lemma unitGroup_iff:
  "(unitGroup num r \<noteq> None) = (toLowerCase r \<in> {[], ''ms'', ''s'', ''m'', ''h''})"
proof (cases "r = []")
  case True
  then show ?thesis by (simp add: unitGroup_def toLowerCase_def)
next
  case False
  then have "toLowerCase r \<noteq> []" by (simp add: toLowerCase_Nil_iff)
  with False show ?thesis by (simp add: unitGroup_def)
qed

text \<open>A unit starts with a letter: neither a digit nor the dot.\<close>

lemma unit_head:
  assumes "toLowerCase u \<in> {[], ''ms'', ''s'', ''m'', ''h''}" and "u = c # t"
  shows "\<not> isDigit c \<and> c \<noteq> CHR ''.''"
proof -
  from assms have l: "toLowerChar c \<in> {CHR ''m'', CHR ''s'', CHR ''h''}"
    by (auto simp: toLowerCase_def)
  have "\<not> isDigit c"
  proof
    assume d: "isDigit c"
    with l toLowerChar_digit [OF d] have "c \<in> {CHR ''m'', CHR ''s'', CHR ''h''}" by simp
    with d show False by (auto simp: isDigit_def)
  qed
  moreover have "c \<noteq> CHR ''.''"
    using l toLowerChar_dot by auto
  ultimately show ?thesis by simp
qed

lemma takeWhile_digits_append:
  assumes "list_all isDigit ds" and "r = [] \<or> \<not> isDigit (hd r)"
  shows "takeWhile isDigit (ds @ r) = ds \<and> dropWhile isDigit (ds @ r) = r"
  using assms by (cases r) (auto simp: list_all_iff takeWhile_append2 dropWhile_append2)

text \<open>The matcher accepts exactly the strings of the duration syntax.\<close>

lemma durationMatch_syntax:
  assumes m: "durationMatch s \<noteq> None"
  shows "durationSyntax s"
proof -
  define ds where "ds = takeWhile isDigit s"
  define r1 where "r1 = dropWhile isDigit s"
  have s: "s = ds @ r1" by (simp add: ds_def r1_def)
  have dig: "list_all isDigit ds" by (simp add: ds_def list_all_takeWhile)
  have ne: "ds \<noteq> []"
  proof
    assume "ds = []"
    then have "durationMatch s = None" by (simp add: durationMatch_def Let_def ds_def)
    with m show False by simp
  qed
  show ?thesis
  proof (cases "\<exists>t. r1 = CHR ''.'' # t \<and> takeWhile isDigit t \<noteq> []")
    case True
    then obtain t where r1: "r1 = CHR ''.'' # t" and t: "takeWhile isDigit t \<noteq> []" by blast
    define f where "f = takeWhile isDigit t"
    define u where "u = dropWhile isDigit t"
    have "durationMatch s = unitGroup (ds @ [CHR ''.''] @ f) u"
      using ne r1 t
      by (simp add: durationMatch_def Let_def ds_def [symmetric] r1_def [symmetric] f_def u_def)
    with m have "unitGroup (ds @ [CHR ''.''] @ f) u \<noteq> None" by simp
    then have u: "toLowerCase u \<in> {[], ''ms'', ''s'', ''m'', ''h''}"
      by (simp only: unitGroup_iff)
    have "s = ds @ (CHR ''.'' # f) @ u" using s r1 by (simp add: f_def u_def)
    moreover have "f \<noteq> []" "list_all isDigit f"
      using t by (simp_all add: f_def list_all_takeWhile)
    ultimately show ?thesis
      unfolding durationSyntax_def using dig ne u
      by (intro exI [of _ ds] exI [of _ "CHR ''.'' # f"] exI [of _ u]) simp
  next
    case False
    have "durationMatch s = unitGroup ds r1"
      using ne False
      by (cases r1) (auto simp: durationMatch_def Let_def ds_def [symmetric] r1_def [symmetric])
    with m have "unitGroup ds r1 \<noteq> None" by simp
    then have u: "toLowerCase r1 \<in> {[], ''ms'', ''s'', ''m'', ''h''}"
      by (simp only: unitGroup_iff)
    show ?thesis
      unfolding durationSyntax_def using s dig ne u
      by (intro exI [of _ ds] exI [of _ "[]"] exI [of _ r1]) simp
  qed
qed

lemma syntax_durationMatch:
  assumes "durationSyntax s"
  shows "durationMatch s \<noteq> None"
proof -
  from assms obtain ds fs u where s: "s = ds @ fs @ u"
    and ne: "ds \<noteq> []" and dig: "list_all isDigit ds"
    and fs: "fs = [] \<or> (\<exists>f. fs = CHR ''.'' # f \<and> f \<noteq> [] \<and> list_all isDigit f)"
    and u: "toLowerCase u \<in> {[], ''ms'', ''s'', ''m'', ''h''}"
    unfolding durationSyntax_def by blast
  have uh: "u = [] \<or> \<not> isDigit (hd u)"
    using unit_head [OF u] by (cases u) auto
  have ud: "u = [] \<or> hd u \<noteq> CHR ''.''"
    using unit_head [OF u] by (cases u) auto
  have nd: "\<not> isDigit (CHR ''.'')" by (simp add: isDigit_def)
  have un: "unitGroup num u \<noteq> None" for num
    using u by (simp only: unitGroup_iff)
  from fs show ?thesis
  proof
    assume e: "fs = []"
    have a: "takeWhile isDigit s = ds" "dropWhile isDigit s = u"
      using takeWhile_digits_append [OF dig uh] s e by simp_all
    have "durationMatch s = unitGroup ds u"
      using ne ud by (cases u) (simp_all add: durationMatch_def Let_def a)
    then show ?thesis using un [of ds] by simp
  next
    assume "\<exists>f. fs = CHR ''.'' # f \<and> f \<noteq> [] \<and> list_all isDigit f"
    then obtain f where f: "fs = CHR ''.'' # f" "f \<noteq> []" "list_all isDigit f" by blast
    have "takeWhile isDigit (ds @ CHR ''.'' # f @ u) = ds
          \<and> dropWhile isDigit (ds @ CHR ''.'' # f @ u) = CHR ''.'' # f @ u"
      by (rule takeWhile_digits_append [OF dig]) (simp add: nd)
    then have a: "takeWhile isDigit s = ds" "dropWhile isDigit s = CHR ''.'' # f @ u"
      using s f by simp_all
    have b: "takeWhile isDigit (f @ u) = f" "dropWhile isDigit (f @ u) = u"
      using takeWhile_digits_append [OF f(3) uh] by simp_all
    have "durationMatch s = unitGroup (ds @ [CHR ''.''] @ f) u"
      using ne f by (simp add: durationMatch_def Let_def a b)
    then show ?thesis using un [of "ds @ [CHR ''.''] @ f"] by simp
  qed
qed

lemma durationMatch_iff: "(durationMatch s \<noteq> None) = durationSyntax s"
  using durationMatch_syntax [of s] syntax_durationMatch [of s] by blast

lemma parseDuration_string_total:
  "\<exists>v tr'. parseDuration (JString s) tr = (Inr v, tr')"
  by (cases "durationMatch s") (auto simp: parseDuration_def Let_def)

lemma parseDuration_no_match:
  assumes "s \<noteq> []" and "\<not> durationSyntax s"
  shows "parseDuration (JString s) tr =
     (Inr 100, tr @ [Warn (''Invalid duration format: '' @ s @ '', using default 100ms'')])"
proof -
  have "durationMatch s = None"
    using assms(2) durationMatch_iff [of s] by (cases "durationMatch s") auto
  then show ?thesis using assms(1) by (simp add: parseDuration_def)
qed

lemma parseDuration_match_silent:
  assumes "durationSyntax s"
  shows "snd (parseDuration (JString s) tr) = tr"
proof -
  have "durationMatch s \<noteq> None" using assms durationMatch_iff [of s] by blast
  then show ?thesis by (auto simp: parseDuration_def Let_def)
qed

lemma parseDuration_examples:
  "parseDuration (JString ''100ms'') tr = (Inr 100, tr)"
  "parseDuration (JString ''2s'') tr = (Inr 2000, tr)"
  "parseDuration (JString ''1m'') tr = (Inr 60000, tr)"
  "parseDuration (JString ''1h'') tr = (Inr 3600000, tr)"
  by (simp_all add: parseDuration_def durationMatch_def unitGroup_def isDigit_def
      toLowerCase_def toLowerChar_def parseFloat_def digitsValue_def)

text \<open>
  Claim C4. On an input that is missing or is a string, \<open>parseDuration\<close> always returns
  a number: \<open>100ms\<close> gives 100, \<open>2s\<close> 2000, \<open>1m\<close> 60000 and \<open>1h\<close> 3600000; a missing
  (\<open>undefined\<close>, \<open>null\<close>) or empty input gives the default 100; every other string that
  is not of the duration syntax gives 100 as well and adds one warning to the trace,
  while a string of the syntax adds nothing.
\<close>

theorem parseDuration_total:
  "parseDuration (JString ''100ms'') tr = (Inr 100, tr)
   \<and> parseDuration (JString ''2s'') tr = (Inr 2000, tr)
   \<and> parseDuration (JString ''1m'') tr = (Inr 60000, tr)
   \<and> parseDuration (JString ''1h'') tr = (Inr 3600000, tr)
   \<and> parseDuration JUndefined tr = (Inr 100, tr)
   \<and> parseDuration JNull tr = (Inr 100, tr)
   \<and> parseDuration (JString []) tr = (Inr 100, tr)
   \<and> (\<exists>v tr'. parseDuration (JString s) tr = (Inr v, tr'))
   \<and> (s \<noteq> [] \<and> \<not> durationSyntax s \<longrightarrow>
        parseDuration (JString s) tr =
          (Inr 100, tr @ [Warn (''Invalid duration format: '' @ s @ '', using default 100ms'')]))
   \<and> (durationSyntax s \<longrightarrow> snd (parseDuration (JString s) tr) = tr)"
proof -
  have d: "parseDuration JUndefined tr = (Inr 100, tr)"
    "parseDuration JNull tr = (Inr 100, tr)"
    "parseDuration (JString []) tr = (Inr 100, tr)"
    by (simp_all add: parseDuration_def)
  show ?thesis
    using parseDuration_examples [of tr] d parseDuration_string_total [of s tr]
      parseDuration_no_match [of s tr] parseDuration_match_silent [of s tr]
    by blast
qed

theorem parseDuration_total_witness:
  "parseDuration (JString ''soon'') []
     = (Inr 100, [Warn ''Invalid duration format: soon, using default 100ms''])
   \<and> parseDuration (JString ''1.5S'') [] = (Inr 1500, [])"
proof -
  have n: "durationMatch ''soon'' = None"
    by (simp add: durationMatch_def isDigit_def)
  have a: "''soon'' \<noteq> [] \<and> \<not> durationSyntax ''soon''"
    using durationMatch_iff [of "''soon''"] n by blast
  have m: "durationMatch ''1.5S'' \<noteq> None"
    by (simp add: durationMatch_def unitGroup_def isDigit_def toLowerCase_def toLowerChar_def)
  have b: "durationSyntax ''1.5S''"
    using durationMatch_iff [of "''1.5S''"] m by blast
  have v: "fst (parseDuration (JString ''1.5S'') []) = Inr 1500"
    by (simp add: parseDuration_def durationMatch_def unitGroup_def isDigit_def
        toLowerCase_def toLowerChar_def parseFloat_def digitsValue_def)
  from parseDuration_total [of "[]" "''soon''"] parseDuration_total [of "[]" "''1.5S''"] a b v
  show ?thesis by (simp add: prod_eq_iff)
qed

section \<open>The auth resolver\<close>

lemma bearerHeader_prefix: "startsWith (bearerHeader t) ''Bearer ''"
  by (simp add: bearerHeader_def startsWith_def)

lemma bearerHeader_not_basic: "bearerHeader t \<noteq> ''Basic '' @ x"
proof
  assume "bearerHeader t = ''Basic '' @ x"
  then have "startsWith (''Basic '' @ x) ''Bearer ''"
    using bearerHeader_prefix [of t] by simp
  then show False by (simp add: startsWith_def)
qed

lemma bearerHeader_idem: "bearerHeader (bearerHeader t) = bearerHeader t"
  by (simp add: bearerHeader_def startsWith_def)

text \<open>The chain of tests of the source is the ordered list of methods of the specification.\<close>

lemma getAuthorizationHeader_refines:
  "getAuthorizationHeader w ctx tr = resolveByPriority w ctx tr"
  by (simp add: getAuthorizationHeader_def resolveByPriority_def methodOrder_def Let_def
      bearerHeader_def)

text \<open>
  Claim C5. A secret is present when the test of the source accepts it, that is, when it
  is bound to a non-empty string. When the bearer secret and both basic-auth secrets are
  present, the resolver returns the header made from the bearer secret, which differs
  from the Basic header. In general the methods are tried in the order bearer, basic,
  authorization-code token, client credentials: the first one in that order whose
  credentials are present yields the outcome, and with none present the resolver throws.
\<close>

theorem bearer_wins_over_basic:
  "(credentialsPresent ctx BearerToken \<and> credentialsPresent ctx BasicAuth \<longrightarrow>
      getAuthorizationHeader w ctx tr
        = (Inr (bearerHeader (str (orEmpty (secrets ctx) ''BEARER_AUTH_TOKEN''))), tr)
      \<and> getAuthorizationHeader w ctx tr \<noteq> methodHeader w ctx BasicAuth tr)
   \<and> methodOrder = [BearerToken, BasicAuth, AuthorizationCode, ClientCredentials]
   \<and> (\<forall>m. find (credentialsPresent ctx) methodOrder = Some m \<longrightarrow>
         getAuthorizationHeader w ctx tr = methodHeader w ctx m tr)
   \<and> (find (credentialsPresent ctx) methodOrder = None \<longrightarrow>
         (\<exists>msg. getAuthorizationHeader w ctx tr = (Inl (Error msg), tr)))"
proof -
  have a: "credentialsPresent ctx BearerToken \<Longrightarrow>
      getAuthorizationHeader w ctx tr
        = (Inr (bearerHeader (str (orEmpty (secrets ctx) ''BEARER_AUTH_TOKEN''))), tr)"
    by (simp add: getAuthorizationHeader_refines resolveByPriority_def methodOrder_def)
  have b: "credentialsPresent ctx BearerToken \<Longrightarrow>
      getAuthorizationHeader w ctx tr \<noteq> methodHeader w ctx BasicAuth tr"
    using bearerHeader_not_basic by (simp add: a)
  have c: "find (credentialsPresent ctx) methodOrder = Some m \<Longrightarrow>
      getAuthorizationHeader w ctx tr = methodHeader w ctx m tr" for m
    by (simp add: getAuthorizationHeader_refines resolveByPriority_def)
  have d: "find (credentialsPresent ctx) methodOrder = None \<Longrightarrow>
      \<exists>msg. getAuthorizationHeader w ctx tr = (Inl (Error msg), tr)"
    by (simp add: getAuthorizationHeader_refines resolveByPriority_def)
  show ?thesis using a b c d by (simp add: methodOrder_def)
qed

theorem bearer_wins_over_basic_witness:
  "getAuthorizationHeader handleWorld bearerAndBasicContext [] = (Inr ''Bearer tok-123'', [])
   \<and> methodHeader handleWorld bearerAndBasicContext BasicAuth []
       = (Inr ''Basic dXNlcjpwYXNz'', [])"
proof -
  have p: "credentialsPresent bearerAndBasicContext BearerToken
           \<and> credentialsPresent bearerAndBasicContext BasicAuth"
    by (simp add: bearerAndBasicContext_def orEmpty_def)
  have b: "methodHeader handleWorld bearerAndBasicContext BasicAuth []
             = (Inr ''Basic dXNlcjpwYXNz'', [])"
    by (simp add: bearerAndBasicContext_def orEmpty_def base64_def utf8_def b64_def)
  from bearer_wins_over_basic [of bearerAndBasicContext handleWorld "[]"] p b
  show ?thesis by (simp add: bearerAndBasicContext_def orEmpty_def bearerHeader_def startsWith_def)
qed

text \<open>
  An empty secret is not a secret that is present: the test
  \<open>if (secrets.BEARER_AUTH_TOKEN)\<close> rejects it, and with it as the only secret the
  resolver finds no method.
\<close>

lemma empty_bearer_secret_absent:
  "\<not> credentialsPresent
       \<lparr>environment = None, secrets = Some [''BEARER_AUTH_TOKEN'' \<mapsto> []],
        data = JUndefined\<rparr> BearerToken
   \<and> getAuthorizationHeader handleWorld
         \<lparr>environment = None, secrets = Some [''BEARER_AUTH_TOKEN'' \<mapsto> []],
          data = JUndefined\<rparr> []
       = (Inl (Error (''No authentication configured. Provide one of: ''
                        @ ''BEARER_AUTH_TOKEN, BASIC_USERNAME/BASIC_PASSWORD, ''
                        @ ''OAUTH2_AUTHORIZATION_CODE_ACCESS_TOKEN, or OAUTH2_CLIENT_CREDENTIALS_*'')),
          [])"
  by (simp add: getAuthorizationHeader_def orEmpty_def)

text \<open>The bearer secret is present exactly when it is bound to a non-empty string.\<close>

lemma bearer_secret_present_iff:
  "credentialsPresent ctx BearerToken =
     (\<exists>tok. orEmpty (secrets ctx) ''BEARER_AUTH_TOKEN'' = Some tok \<and> tok \<noteq> [])"
  by (cases "orEmpty (secrets ctx) ''BEARER_AUTH_TOKEN''") simp_all

text \<open>
  Claim C6. For every bearer-token secret that is present (bound to a non-empty string,
  which is what the test of the source and the specification's \<open>Bearer secret present\<close>
  ask): one that starts with \<open>Bearer \<close> is returned unchanged, any other is returned
  with \<open>Bearer \<close> put in front; and prefixing is idempotent, the returned header, used
  as the secret, being returned as it is.
\<close>

theorem bearer_prefixing_nonempty:
  assumes "orEmpty (secrets ctx) ''BEARER_AUTH_TOKEN'' = Some tok" and "tok \<noteq> []"
  shows "(startsWith tok ''Bearer '' \<longrightarrow> getAuthorizationHeader w ctx tr = (Inr tok, tr))
    \<and> (\<not> startsWith tok ''Bearer '' \<longrightarrow>
         getAuthorizationHeader w ctx tr = (Inr (''Bearer '' @ tok), tr))
    \<and> (\<forall>h. getAuthorizationHeader w ctx tr = (Inr h, tr) \<longrightarrow>
         getAuthorizationHeader w
            (ctx\<lparr>secrets := Some ((orEmpty (secrets ctx))(''BEARER_AUTH_TOKEN'' \<mapsto> h))\<rparr>) tr
           = (Inr h, tr))"
  using assms
  by (auto simp: getAuthorizationHeader_def Let_def orEmpty_def startsWith_def)

theorem bearer_prefixing_nonempty_witness:
  "getAuthorizationHeader handleWorld bearerContext [] = (Inr ''Bearer tok-123'', [])
   \<and> getAuthorizationHeader handleWorld
        (bearerContext\<lparr>secrets := Some [''BEARER_AUTH_TOKEN'' \<mapsto> ''Bearer tok-123'']\<rparr>) []
       = (Inr ''Bearer tok-123'', [])"
proof -
  have a: "orEmpty (secrets bearerContext) ''BEARER_AUTH_TOKEN'' = Some ''tok-123''"
    by (simp add: bearerContext_def orEmpty_def)
  have b: "orEmpty (secrets (bearerContext
                \<lparr>secrets := Some [''BEARER_AUTH_TOKEN'' \<mapsto> ''Bearer tok-123'']\<rparr>))
             ''BEARER_AUTH_TOKEN'' = Some ''Bearer tok-123''"
    by (simp add: orEmpty_def)
  from bearer_prefixing_nonempty [OF a, of handleWorld "[]"]
    bearer_prefixing_nonempty [OF b, of handleWorld "[]"]
  show ?thesis by (simp add: startsWith_def)
qed

end
